theory Spec2Isabelle
  imports Complex_Main
begin

section \<open>Technology-group targets of \<open>switch_model/hawaii/heco_outlook_2019.py\<close>\<close>

text \<open>
  The module builds a list of construction targets \<open>(year, tech_group, quantity)\<close>,
  appends the reconstruction of every target at the end of its service life, sums the
  targets that fall into each study period and turns each sum into an equality or an
  inequality on the construction variables of the period.

  Years, periods and service lives are Python integers (\<open>int\<close>); capacities are Python
  floats, idealised here as \<open>real\<close>. The value of \<open>--psip-relax-after\<close> is parsed with
  \<open>type=float\<close> and is a \<open>real\<close> as well.
\<close>

subsection \<open>Data\<close>

text \<open>
  The third component of a target is either a number (MW added) or, for storage with a free
  energy value, a tuple \<open>(MW, hours)\<close>.
\<close>

datatype quantity = MW real | MW_hours real real

type_synonym target = "int \<times> string \<times> quantity"

text \<open>Every \<open>raise\<close> and every failing \<open>assert\<close> of \<open>define_components\<close>.\<close>

datatype error =
    Unrecognized_USE_PSIP_PLAN string
  | LNG_not_forced_off
  | Pre_existing_batteries
  | Mixed_ages
  | No_periods
  | No_matching_technologies string
  | Unknown_tech_life string
  | No_matching_projects string int
  | Different_unit_sizes
  | NotImplemented

subsection \<open>Reconstruction at retirement (lines 429--448)\<close>

text \<open>
  The inner loop
  \<^verbatim>\<open>
        rebuild = 1
        while build_year + rebuild * max_age <= last_period:
            tech_group_targets.append((build_year + rebuild * max_age, tech_group, cap))
            rebuild += 1
  \<close>
  with the list \<open>tech_group_targets\<close> passed through. Nothing in the code bounds the number
  of iterations, so the loop is a partial function: \<open>None\<close> is the run that never leaves it.
\<close>

partial_function (option) rebuild_while ::
  "int \<Rightarrow> string \<Rightarrow> quantity \<Rightarrow> int \<Rightarrow> int \<Rightarrow> int \<Rightarrow> target list \<Rightarrow> target list option"
where
  "rebuild_while build_year tech_group cap max_age last_period rebuild tech_group_targets =
     (if build_year + rebuild * max_age \<le> last_period
      then rebuild_while build_year tech_group cap max_age last_period (rebuild + 1)
             (tech_group_targets @ [(build_year + rebuild * max_age, tech_group, cap)])
      else Some tech_group_targets)"

text \<open>
  The outer loop runs over \<open>rebuildable_targets\<close>, a list built by \<open>+\<close> before the loop
  starts and therefore a copy: the events appended to \<open>tech_group_targets\<close> are not visited.
  The state is the dictionary \<open>tech_life\<close> and the list \<open>tech_group_targets\<close>; \<open>ages\<close>
  gives the mean of \<open>gen_max_age\<close> of each technology group of \<open>generation_projects_info.csv\<close>.
\<close>

fun rebuild_for ::
  "(string \<rightharpoonup> int) \<Rightarrow> int \<Rightarrow> target list \<Rightarrow> (string \<rightharpoonup> int) \<times> target list
     \<Rightarrow> (error + (string \<rightharpoonup> int) \<times> target list) option"
where
  "rebuild_for ages last_period [] st = Some (Inr st)"
| "rebuild_for ages last_period ((build_year, tech_group, cap) # rest) (tech_life, tech_group_targets) =
     (case ages tech_group of
        None \<Rightarrow> Some (Inl (No_matching_technologies tech_group))
      | Some max_age \<Rightarrow>
          (case rebuild_while build_year tech_group cap max_age last_period 1 tech_group_targets of
             None \<Rightarrow> None
           | Some tech_group_targets' \<Rightarrow>
               rebuild_for ages last_period rest
                 (tech_life(tech_group \<mapsto> max_age), tech_group_targets')))"

text \<open>
  \<^verbatim>\<open>
    rebuildable_targets = [
        (y, t, q)
        for i, y, t, q in existing_techs.itertuples()
        if is_renewable(t) or is_battery(t)
    ] + tech_group_targets
    tech_life = dict()
    for build_year, tech_group, cap in rebuildable_targets: ...
  \<close>
  \<open>seeds\<close> is the first summand, the renewable and battery rows of \<open>existing_techs\<close>.
\<close>

definition add_rebuilds ::
  "(string \<rightharpoonup> int) \<Rightarrow> int \<Rightarrow> target list \<Rightarrow> target list
     \<Rightarrow> (error + (string \<rightharpoonup> int) \<times> target list) option"
where
  "add_rebuilds ages last_period seeds tech_group_targets =
     rebuild_for ages last_period (seeds @ tech_group_targets) (Map.empty, tech_group_targets)"

text \<open>
  The successors that section 4.3 of the specification asks for: an event of the year
  \<open>year\<close> and a group of service life \<open>life\<close> is rebuilt in the years
  \<open>year + k * life\<close>, \<open>k = 1, 2, \<dots>\<close>, that are not after \<open>horizon_end\<close>.
\<close>

definition successors :: "(string \<rightharpoonup> int) \<Rightarrow> int \<Rightarrow> target \<Rightarrow> target list" where
  "successors ages horizon_end = (\<lambda>(year, tech_group, quantity).
     case ages tech_group of
       None \<Rightarrow> []
     | Some life \<Rightarrow>
         map (\<lambda>k. (year + k * life, tech_group, quantity)) [1 .. (horizon_end - year) div life])"

subsection \<open>The strict-plan flag (lines 47--56)\<close>

text \<open>
  \<open>str.lower\<close> on the letters that matter here: the recognised spellings are ASCII, and
  of the characters outside \<open>A\<close>..\<open>Z\<close> none is lowered to a letter of these spellings.
\<close>

definition lower_char :: "char \<Rightarrow> char" where
  "lower_char c =
     (case map_of (zip ''ABCDEFGHIJKLMNOPQRSTUVWXYZ'' ''abcdefghijklmnopqrstuvwxyz'') c of
        Some d \<Rightarrow> d
      | None \<Rightarrow> c)"

definition lower :: "string \<Rightarrow> string" where
  "lower s = map lower_char s"

text \<open>
  \<open>psip_env_var\<close> is \<open>os.environ.get('USE_PSIP_PLAN')\<close>, \<open>None\<close> when the variable is
  not set; \<open>psip_force\<close> is the command-line flag.
\<close>

definition use_psip_plan :: "string option \<Rightarrow> bool \<Rightarrow> error + bool" where
  "use_psip_plan psip_env_var psip_force =
     (case psip_env_var of
        None \<Rightarrow> Inr psip_force
      | Some v \<Rightarrow>
          if lower v \<in> set [''1'', ''true'', ''y'', ''yes'', ''on''] then Inr True
          else if lower v \<in> set [''0'', ''false'', ''n'', ''no'', ''off''] then Inr False
          else Inl (Unrecognized_USE_PSIP_PLAN v))"

subsection \<open>Technology names (lines 33--36)\<close>

text \<open>\<open>contains txt tech\<close> is Python's \<open>txt in tech\<close> on strings.\<close>

fun contains :: "string \<Rightarrow> string \<Rightarrow> bool" where
  "contains txt [] = (txt = [])"
| "contains txt (c # cs) = (take (length txt) (c # cs) = txt \<or> contains txt cs)"

definition is_renewable :: "string \<Rightarrow> bool" where
  "is_renewable tech = list_ex (\<lambda>txt. contains txt tech) [''PV'', ''Wind'', ''Solar'']"

definition is_battery :: "string \<Rightarrow> bool" where
  "is_battery tech = contains ''battery'' (lower tech)"

subsection \<open>Options and the merged target list (lines 315--324 and 365--374)\<close>

text \<open>
  \<open>force_build\<close> is the \<open>--force-build\<close> triple after \<open>int(b[0])\<close> and \<open>float(b[2])\<close>;
  \<open>force_lng_tier\<close> is \<open>None\<close> when the option does not exist, where \<open>getattr\<close> gives
  \<open>[]\<close>.
\<close>

record options =
  psip_force :: bool
  psip_minimal_renewables :: bool
  force_build :: "target option"
  psip_relax_after :: "real option"
  force_lng_tier :: "string list option"

text \<open>
  Python lists are objects, and two names of \<open>define_components\<close> may hold the same one:
  in the relaxed branch \<open>tech_group_targets = tech_group_targets_definite\<close> binds a second
  name to the list of definite targets, while the strict branch builds a new list with
  \<open>+\<close>. The store keeps the two possible list objects apart.
\<close>

datatype list_ref = definite_list | merged_list

type_synonym store = "list_ref \<Rightarrow> target list"

text \<open>
  \<^verbatim>\<open>
    if psip:
        if m.options.psip_relax_after is not None:
            psip_targets = [t for t in tech_group_targets_psip if t[0] <= m.options.psip_relax_after]
        else:
            psip_targets = tech_group_targets_psip
        tech_group_targets = tech_group_targets_definite + psip_targets
    else:
        tech_group_targets = tech_group_targets_definite
  \<close>
  The result is the object that \<open>tech_group_targets\<close> names, and the store.
\<close>

definition merge_targets ::
  "bool \<Rightarrow> real option \<Rightarrow> target list \<Rightarrow> target list \<Rightarrow> list_ref \<times> store"
where
  "merge_targets psip relax_after tech_group_targets_definite tech_group_targets_psip =
     (let st = (\<lambda>r. []) (definite_list := tech_group_targets_definite)
      in if psip then
           (let psip_targets =
                  (case relax_after of
                     Some r \<Rightarrow> filter (\<lambda>t. real_of_int (fst t) \<le> r) tech_group_targets_psip
                   | None \<Rightarrow> tech_group_targets_psip)
            in (merged_list, st (merged_list := tech_group_targets_definite @ psip_targets)))
         else (definite_list, st))"

text \<open>Lines 315--324: the command-line target is appended to the definite targets.\<close>

definition append_force_build :: "target option \<Rightarrow> target list \<Rightarrow> target list" where
  "append_force_build fb tech_group_targets_definite =
     (case fb of None \<Rightarrow> tech_group_targets_definite
      | Some build \<Rightarrow> tech_group_targets_definite @ [build])"

subsection \<open>Technology groups (lines 378--393)\<close>

text \<open>
  \<open>techs_for_tech_group\<close> is a dictionary in insertion order: the two explicit groups, then
  one singleton group for every other group named by a target. The reverse mapping is a
  dictionary comprehension, where a later pair replaces an earlier one with the same key.
\<close>

definition techs_for_tech_group :: "target list \<Rightarrow> (string \<times> string list) list" where
  "techs_for_tech_group tech_group_targets =
     (let explicit = [(''DistPV'', [''DistPV'', ''SlopedDistPV'', ''FlatDistPV'']),
                      (''LargePV'', [''CentralTrackingPV'', ''CentralFixedPV''])];
          missing_techs =
            filter (\<lambda>t. t \<notin> set (map fst explicit))
              (remdups (map (\<lambda>(y, t, s). t) tech_group_targets))
      in explicit @ map (\<lambda>t. (t, [t])) missing_techs)"

definition tech_tech_group :: "(string \<times> string list) list \<Rightarrow> (string \<rightharpoonup> string)" where
  "tech_tech_group tftg =
     map_of (rev (concat (map (\<lambda>(tech_group, techs). map (\<lambda>tech. (tech, tech_group)) techs) tftg)))"

subsection \<open>Targets of a period (lines 450--488)\<close>

definition tech_group_power_targets :: "target list \<Rightarrow> (int \<times> string \<times> real) list" where
  "tech_group_power_targets tech_group_targets =
     map (\<lambda>(y, t, q). (y, t, case q of MW_hours p h \<Rightarrow> p | MW p \<Rightarrow> p)) tech_group_targets"

definition tech_group_energy_targets :: "target list \<Rightarrow> (int \<times> string \<times> real) list" where
  "tech_group_energy_targets tech_group_targets =
     concat (map (\<lambda>(y, t, q). case q of MW_hours p h \<Rightarrow> [(y, t, p * h)] | MW p \<Rightarrow> [])
               tech_group_targets)"

text \<open>
  \<open>m.PERIODS\<close> is an ordered set, here the list of its members in order;
  \<open>prev_period\<close> is \<open>m.PERIODS.prev\<close>, which has no value at the first member or outside
  the set.
\<close>

fun prev_period :: "int list \<Rightarrow> int \<Rightarrow> int option" where
  "prev_period (p # q # ps) per = (if q = per then Some p else prev_period (q # ps) per)"
| "prev_period ps per = None"

definition period_start :: "int list \<Rightarrow> int \<Rightarrow> int option" where
  "period_start PERIODS per =
     (case PERIODS of
        [] \<Rightarrow> None
      | first # rest \<Rightarrow> if per = first then Some 0 else prev_period PERIODS per)"

text \<open>
  The generator summed by \<open>tech_group_target\<close>, with the running sum. The conditions are
  joined by \<open>and\<close>, so \<open>tech_life[ttech]\<close> is read only for a target of the group inside the
  window, and raises \<open>KeyError\<close> there when the group has no entry.
\<close>

fun sum_targets ::
  "(string \<rightharpoonup> int) \<Rightarrow> int \<Rightarrow> int \<Rightarrow> string \<Rightarrow> real \<Rightarrow> (int \<times> string \<times> real) list
     \<Rightarrow> error + real"
where
  "sum_targets tech_life start end' tech acc [] = Inr acc"
| "sum_targets tech_life start end' tech acc ((tyear, ttech, q) # targets) =
     (if ttech = tech \<and> start < tyear \<and> tyear \<le> end' then
        (case tech_life ttech of
           None \<Rightarrow> Inl (Unknown_tech_life ttech)
         | Some life \<Rightarrow>
             if tyear + life > end'
             then sum_targets tech_life start end' tech (acc + q) targets
             else sum_targets tech_life start end' tech acc targets)
      else sum_targets tech_life start end' tech acc targets)"

text \<open>
  \<open>tech_group_target\<close> is called for the members of \<open>m.PERIODS\<close> only; \<open>None\<close> is the call
  for a year that is no period.
\<close>

definition tech_group_target ::
  "int list \<Rightarrow> (string \<rightharpoonup> int) \<Rightarrow> int \<Rightarrow> string \<Rightarrow> (int \<times> string \<times> real) list
     \<Rightarrow> (error + real) option"
where
  "tech_group_target PERIODS tech_life per tech targets =
     (case period_start PERIODS per of
        None \<Rightarrow> None
      | Some start \<Rightarrow> Some (sum_targets tech_life start per tech 0 targets))"

subsection \<open>The last definite target (lines 532--534)\<close>

text \<open>
  \<^verbatim>\<open>
    last_definite_target = dict()
    for y, t, q in tech_group_targets_definite:
        last_definite_target[t] = max(y, last_definite_target.get(t, 0))
  \<close>
\<close>

fun last_definite_target_for :: "target list \<Rightarrow> (string \<rightharpoonup> int) \<Rightarrow> (string \<rightharpoonup> int)" where
  "last_definite_target_for [] d = d"
| "last_definite_target_for ((y, t, q) # rest) d =
     last_definite_target_for rest (d(t \<mapsto> max y (case d t of None \<Rightarrow> 0 | Some y' \<Rightarrow> y')))"

definition last_definite_target :: "target list \<Rightarrow> (string \<rightharpoonup> int)" where
  "last_definite_target tech_group_targets_definite =
     last_definite_target_for tech_group_targets_definite Map.empty"

subsection \<open>\<open>define_components\<close> up to the declaration of the constraints\<close>

text \<open>
  The frames that pandas computes from the input files are inputs here: \<open>existing_techs\<close>
  is the frame of \<open>(build_year, tech_group, gen_predetermined_cap)\<close> sums, \<open>ages\<close> has one
  row \<open>(tech_group, min, max, mean)\<close> of \<open>gen_max_age\<close> for every group of
  \<open>generation_projects_info.csv\<close>, \<open>periods_csv\<close> is the first column of \<open>periods.csv\<close>.
  \<open>LNG_in_FUELS\<close> is \<open>'LNG' in m.FUELS\<close>.
\<close>

record inputs =
  USE_PSIP_PLAN :: "string option"
  opts :: options
  LNG_in_FUELS :: bool
  existing_techs_frame :: "(int \<times> string \<times> real) list"
  ages_frame :: "(string \<times> int \<times> int \<times> int) list"
  periods_csv :: "int list"

text \<open>What the rules of the parameters and constraints read when the model is built.\<close>

record components =
  psip_in_force :: bool
  relax_after :: "real option"
  minimal_renewables :: bool
  power_targets :: "(int \<times> string \<times> real) list"
  energy_targets :: "(int \<times> string \<times> real) list"
  tech_life_dict :: "string \<rightharpoonup> int"
  last_definite_target_dict :: "string \<rightharpoonup> int"
  FORECASTED_TECH_GROUPS :: "string list"
  FORECASTED_TECH_GROUP_TECHS :: "(string \<times> string list) list"
  RENEWABLE_TECH_GROUPS :: "string list"

definition ages_mean :: "(string \<times> int \<times> int \<times> int) list \<Rightarrow> (string \<rightharpoonup> int)" where
  "ages_mean ags = map_of (map (\<lambda>(g, mn, mx, mean). (g, mean)) ags)"

definition rebuildable_existing :: "(int \<times> string \<times> real) list \<Rightarrow> target list" where
  "rebuildable_existing ex =
     map (\<lambda>(y, t, q). (y, t, MW q)) (filter (\<lambda>(y, t, q). is_renewable t \<or> is_battery t) ex)"

text \<open>
  The two tables of the module are parameters, so that the function can be run on other
  tables. The last step is line 595: with the plan in force, \<open>TODO\<close> raises
  \<open>NotImplementedError\<close>.
\<close>

definition define_components ::
  "target list \<Rightarrow> target list \<Rightarrow> inputs \<Rightarrow> (error + components) option"
where
  "define_components tech_group_targets_definite tech_group_targets_psip inp =
     (case use_psip_plan (USE_PSIP_PLAN inp) (psip_force (opts inp)) of
        Inl e \<Rightarrow> Some (Inl e)
      | Inr psip \<Rightarrow>
          if psip \<and> LNG_in_FUELS inp
             \<and> (case force_lng_tier (opts inp) of None \<Rightarrow> [] | Some l \<Rightarrow> l) \<noteq> [''none'']
          then Some (Inl LNG_not_forced_off)
          else
            (let definite = append_force_build (force_build (opts inp)) tech_group_targets_definite;
                 (tgts_ref, st) =
                    merge_targets psip (psip_relax_after (opts inp)) definite tech_group_targets_psip;
                 tftg = techs_for_tech_group (st tgts_ref)
             in if list_ex (\<lambda>(y, t, q). is_battery t) (existing_techs_frame inp)
                then Some (Inl Pre_existing_batteries)
                else if \<not> list_all (\<lambda>(g, mn, mx, mean). mn = mx) (ages_frame inp)
                then Some (Inl Mixed_ages)
                else if periods_csv inp = [] then Some (Inl No_periods)
                else
                  (case add_rebuilds (ages_mean (ages_frame inp)) (last (periods_csv inp))
                          (rebuildable_existing (existing_techs_frame inp)) (st tgts_ref) of
                     None \<Rightarrow> None
                   | Some (Inl e) \<Rightarrow> Some (Inl e)
                   | Some (Inr (tlife, tgts)) \<Rightarrow>
                       (let st' = st (tgts_ref := tgts)
                        in if psip then Some (Inl NotImplemented)
                           else Some (Inr \<lparr>
                             psip_in_force = psip,
                             relax_after = psip_relax_after (opts inp),
                             minimal_renewables = psip_minimal_renewables (opts inp),
                             power_targets = tech_group_power_targets (st' tgts_ref),
                             energy_targets = tech_group_energy_targets (st' tgts_ref),
                             tech_life_dict = tlife,
                             last_definite_target_dict = last_definite_target (st' definite_list),
                             FORECASTED_TECH_GROUPS = map fst tftg,
                             FORECASTED_TECH_GROUP_TECHS = tftg,
                             RENEWABLE_TECH_GROUPS = filter is_renewable (map fst tftg)\<rparr>)))))"

subsection \<open>The constraint of a period and a technology group (lines 536--593)\<close>

text \<open>
  A constraint is \<open>Constraint.Skip\<close>, or relates the sum of the construction variables
  with the given indices to a number.
\<close>

datatype constraint =
    Skip
  | Eq "(string \<times> int) list" real
  | Ge "(string \<times> int) list" real

record model =
  PERIODS :: "int list"
  GENERATION_PROJECTS :: "string list"
  gen_tech :: "string \<Rightarrow> string"
  BuildGen :: "(string \<times> int) list"
  BuildStorageEnergy :: "(string \<times> int) list"
  gen_predetermined_cap :: "((string \<times> int) \<times> real) list"
  gen_unit_size :: "(string \<times> real) list"
  STORAGE_GENS :: "string list"
  energy_to_power_ratio_is_inf :: "string \<Rightarrow> bool"

text \<open>
  The terms of \<open>build\<close>: the variables \<open>build_var[g, per]\<close> of the projects of the group.
  \<open>m.FORECASTED_TECHS\<close> is the set of keys of \<open>tech_tech_group\<close>.
\<close>

definition build_terms ::
  "model \<Rightarrow> (string \<rightharpoonup> string) \<Rightarrow> (string \<times> int) list \<Rightarrow> int \<Rightarrow> string \<Rightarrow> (string \<times> int) list"
where
  "build_terms m ttg build_var per tech_group =
     map (\<lambda>g. (g, per))
       (filter (\<lambda>g. ttg (gen_tech m g) = Some tech_group \<and> (g, per) \<in> set build_var)
          (GENERATION_PROJECTS m))"

text \<open>
  \<open>type(build) is int and build == 0\<close> holds exactly when the sum has no term: Python's
  \<open>sum\<close> of nothing is the integer 0, and a sum with a variable is an expression.
\<close>

definition tech_group_target_rule ::
  "components \<Rightarrow> model \<Rightarrow> int \<Rightarrow> string \<Rightarrow> (string \<times> int) list \<Rightarrow> real \<Rightarrow> error + constraint"
where
  "tech_group_target_rule c m per tech_group build_var target =
     (let build = build_terms m (tech_tech_group (FORECASTED_TECH_GROUP_TECHS c)) build_var per tech_group
      in if build = [] then
           (if target = 0 then Inr Skip else Inl (No_matching_projects tech_group per))
         else if psip_in_force c \<and> (case relax_after c of None \<Rightarrow> True | Some r \<Rightarrow> real_of_int per \<le> r)
           then Inr (Eq build target)
         else if per \<le> (case last_definite_target_dict c tech_group of None \<Rightarrow> 0 | Some y \<Rightarrow> y)
           then Inr (Eq build target)
         else if minimal_renewables c \<and> tech_group \<in> set (RENEWABLE_TECH_GROUPS c)
           then Inr (Eq build target)
         else Inr (Ge build target))"

text \<open>
  \<open>MakeTechGroupDicts_rule\<close>, lines 490--523. The dictionaries are \<open>defaultdict(float)\<close>:
  a key that was never written reads as 0.
\<close>

fun unit_sizes_for ::
  "model \<Rightarrow> (string \<rightharpoonup> string) \<Rightarrow> (string \<times> real) list \<Rightarrow> (string \<rightharpoonup> real)
     \<Rightarrow> error + (string \<rightharpoonup> real)"
where
  "unit_sizes_for m ttg [] unit_sizes = Inr unit_sizes"
| "unit_sizes_for m ttg ((g, unit_size) # rest) unit_sizes =
     (case ttg (gen_tech m g) of
        None \<Rightarrow> unit_sizes_for m ttg rest unit_sizes
      | Some tech_group \<Rightarrow>
          (case unit_sizes tech_group of
             Some u \<Rightarrow> if u \<noteq> unit_size then Inl Different_unit_sizes
                       else unit_sizes_for m ttg rest unit_sizes
           | None \<Rightarrow> unit_sizes_for m ttg rest (unit_sizes(tech_group \<mapsto> unit_size))))"

fun predetermined_power_for ::
  "model \<Rightarrow> (string \<rightharpoonup> string) \<Rightarrow> ((string \<times> int) \<times> real) list \<Rightarrow> (string \<times> int \<Rightarrow> real)
     \<Rightarrow> (string \<times> int \<Rightarrow> real)"
where
  "predetermined_power_for m ttg [] d = d"
| "predetermined_power_for m ttg (((g, per), cap) # rest) d =
     (case ttg (gen_tech m g) of
        None \<Rightarrow> predetermined_power_for m ttg rest d
      | Some tech_group \<Rightarrow>
          predetermined_power_for m ttg rest (d((tech_group, per) := d (tech_group, per) + cap)))"

fun predetermined_energy_for ::
  "model \<Rightarrow> (string \<rightharpoonup> string) \<Rightarrow> ((string \<times> int) \<times> real) list \<Rightarrow> (string \<times> int \<Rightarrow> real)
     \<Rightarrow> error + (string \<times> int \<Rightarrow> real)"
where
  "predetermined_energy_for m ttg [] d = Inr d"
| "predetermined_energy_for m ttg (((g, per), cap) # rest) d =
     (if ttg (gen_tech m g) \<noteq> None \<and> g \<in> set (STORAGE_GENS m)
         \<and> energy_to_power_ratio_is_inf m g
      then Inl NotImplemented
      else predetermined_energy_for m ttg rest d)"

record tech_group_dicts =
  tech_group_unit_size_dict :: "string \<rightharpoonup> real"
  tech_group_predetermined_power_cap_dict :: "string \<times> int \<Rightarrow> real"
  tech_group_predetermined_energy_cap_dict :: "string \<times> int \<Rightarrow> real"

definition MakeTechGroupDicts_rule :: "components \<Rightarrow> model \<Rightarrow> error + tech_group_dicts" where
  "MakeTechGroupDicts_rule c m =
     (let ttg = tech_tech_group (FORECASTED_TECH_GROUP_TECHS c)
      in case unit_sizes_for m ttg (gen_unit_size m) Map.empty of
           Inl e \<Rightarrow> Inl e
         | Inr us \<Rightarrow>
             (case predetermined_energy_for m ttg (gen_predetermined_cap m) (\<lambda>k. 0) of
                Inl e \<Rightarrow> Inl e
              | Inr en \<Rightarrow> Inr \<lparr>
                  tech_group_unit_size_dict = us,
                  tech_group_predetermined_power_cap_dict =
                    predetermined_power_for m ttg (gen_predetermined_cap m) (\<lambda>k. 0),
                  tech_group_predetermined_energy_cap_dict = en\<rparr>))"

text \<open>
  The rules of \<open>Enforce_Tech_Group_Power_Target\<close> and \<open>Enforce_Tech_Group_Energy_Target\<close>
  (lines 578--593), with the rules of the two target parameters (lines 482--488) inlined.
  \<open>None\<close> is the call for a year that is no period, or the run of the build action that
  does not return the dictionaries.
\<close>

definition Enforce_Tech_Group_Power_Target ::
  "components \<Rightarrow> model \<Rightarrow> tech_group_dicts \<Rightarrow> int \<Rightarrow> string \<Rightarrow> (error + constraint) option"
where
  "Enforce_Tech_Group_Power_Target c m d per tech_group =
     (case tech_group_target (PERIODS m) (tech_life_dict c) per tech_group (power_targets c) of
        None \<Rightarrow> None
      | Some (Inl e) \<Rightarrow> Some (Inl e)
      | Some (Inr tgt) \<Rightarrow>
          (let target = tgt + tech_group_predetermined_power_cap_dict d (tech_group, per)
           in Some (tech_group_target_rule c m per tech_group (BuildGen m) target)))"

definition Enforce_Tech_Group_Energy_Target ::
  "components \<Rightarrow> model \<Rightarrow> tech_group_dicts \<Rightarrow> int \<Rightarrow> string \<Rightarrow> (error + constraint) option"
where
  "Enforce_Tech_Group_Energy_Target c m d per tech_group =
     (case tech_group_target (PERIODS m) (tech_life_dict c) per tech_group (energy_targets c) of
        None \<Rightarrow> None
      | Some (Inl e) \<Rightarrow> Some (Inl e)
      | Some (Inr tgt) \<Rightarrow>
          (let target = tgt + tech_group_predetermined_energy_cap_dict d (tech_group, per)
           in Some (tech_group_target_rule c m per tech_group (BuildStorageEnergy m) target)))"

section \<open>Properties\<close>

subsection \<open>The reconstruction loop\<close>

text \<open>With a positive service life, the test of the loop is a bound on the counter.\<close>

lemma le_div_pos: "0 < (L::int) \<Longrightarrow> (Y + r * L \<le> H) = (r \<le> (H - Y) div L)"
proof -
  assume L: "0 < L"
  have "(H - Y) div L = \<lfloor>real_of_int (H - Y) / real_of_int L\<rfloor>"
    by (rule floor_divide_of_int_eq[symmetric])
  then have "(r \<le> (H - Y) div L) = (of_int r \<le> real_of_int (H - Y) / real_of_int L)"
    by (simp only: le_floor_iff)
  also have "\<dots> = (real_of_int r * real_of_int L \<le> real_of_int (H - Y))"
    using L by (simp only: pos_le_divide_eq of_int_0_less_iff)
  also have "\<dots> = (r * L \<le> H - Y)"
    by (simp only: of_int_le_iff of_int_mult[symmetric])
  finally show ?thesis by linarith
qed

text \<open>
  A run of the loop that returns did not start inside the window with a service life that
  is zero or negative: there the candidate year never passes the last period.
\<close>

lemma rebuild_while_Some_cond:
  assumes "rebuild_while a t c m l k ts = Some y" shows "\<not> (m \<le> 0 \<and> a + k * m \<le> l)"
proof (rule rebuild_while.raw_induct[where P = "\<lambda>a t c m l k ts y. \<not> (m \<le> 0 \<and> a + k * m \<le> l)", OF _ assms], goal_cases)
  case (1 f a t c m l k ts y)
  show ?case
  proof
    assume A: "m \<le> 0 \<and> a + k * m \<le> l"
    then have "f a t c m l (k + 1) (ts @ [(a + k * m, t, c)]) = Some y"
      using 1(2) by simp
    from 1(1)[OF this] A show False by (simp add: algebra_simps)
  qed
qed

text \<open>With a positive service life the loop returns, and what it appends is known.\<close>

lemma rebuild_while_pos:
  assumes "0 < max_age"
  shows "rebuild_while build_year tech_group cap max_age last_period k tgts =
     Some (tgts @ map (\<lambda>i. (build_year + i * max_age, tech_group, cap))
                     [k .. (last_period - build_year) div max_age])"
proof (induction "nat ((last_period - build_year) div max_age + 1 - k)" arbitrary: k tgts)
  case 0
  then have "\<not> k \<le> (last_period - build_year) div max_age" by simp
  then show ?case
    using assms by (subst rebuild_while.simps) (simp add: le_div_pos)
next
  case (Suc n)
  then have le: "k \<le> (last_period - build_year) div max_age" by simp
  have n: "n = nat ((last_period - build_year) div max_age + 1 - (k + 1))" using Suc(2) by simp
  show ?case
    using assms le Suc(1)[OF n]
    by (subst rebuild_while.simps) (simp add: le_div_pos upto_rec1)
qed

lemma rebuild_for_terminates:
  "\<forall>(y, t, q) \<in> set evs. \<forall>L. ages t = Some L \<longrightarrow> 0 < L \<Longrightarrow> rebuild_for ages H evs st \<noteq> None"
proof (induction evs arbitrary: st)
  case Nil
  then show ?case by simp
next
  case (Cons ev evs)
  obtain y t q where ev: "ev = (y, t, q)" by (cases ev) 
  obtain tlife tgts where st: "st = (tlife, tgts)" by (cases st)
  show ?case
  proof (cases "ages t")
    case None
    then show ?thesis by (simp add: ev st)
  next
    case (Some L)
    with Cons.prems have "0 < L" by (simp add: ev)
    then show ?thesis
      using Some Cons.IH Cons.prems by (simp add: ev st rebuild_while_pos)
  qed
qed

lemma rebuild_for_pos:
  "\<forall>(y, t, q) \<in> set evs. \<exists>L. ages t = Some L \<and> 0 < L \<Longrightarrow>
   rebuild_for ages H evs (tlife, tgts) =
     Some (Inr (\<lambda>g. if g \<in> (\<lambda>(y, t, q). t) ` set evs then ages g else tlife g,
                tgts @ concat (map (successors ages H) evs)))"
proof (induction evs arbitrary: tlife tgts)
  case Nil
  then show ?case by simp
next
  case (Cons ev evs)
  obtain y t q where ev: "ev = (y, t, q)" by (cases ev) 
  from Cons.prems obtain L where L: "ages t = Some L" "0 < L" by (auto simp: ev)
  have rest: "\<forall>(y, t, q) \<in> set evs. \<exists>L. ages t = Some L \<and> 0 < L" using Cons.prems by simp
  have m: "(\<lambda>g. if g \<in> (\<lambda>(y, t, q). t) ` set evs then ages g else (tlife(t \<mapsto> L)) g)
         = (\<lambda>g. if g \<in> (\<lambda>(y, t, q). t) ` set (ev # evs) then ages g else tlife g)"
    using L(1) by (auto simp: ev fun_eq_iff)
  show ?case
    using L Cons.IH[OF rest] m
    by (simp add: ev rebuild_while_pos successors_def)
qed

lemma successors_group:
  "(y', t', q') \<in> set (successors ages H (y, t, q)) \<Longrightarrow> t' = t \<and> q' = q"
  by (auto simp: successors_def split: option.splits)


text \<open>
  Claim C10. When every service life that \<open>ages\<close> gives for a group of a rebuildable
  target is positive, the reconstruction returns, with the list or with the error for a
  group that \<open>ages\<close> does not know. The positive life is what ends the inner loop: for a
  target not after the last period and a life that is zero or negative, the loop never
  returns.
\<close>

theorem rebuild_terminates:
  assumes "\<forall>(y, t, q) \<in> set (seeds @ tgts). \<forall>L. ages t = Some L \<longrightarrow> 0 < L"
  shows "add_rebuilds ages H seeds tgts \<noteq> None
       \<and> (\<forall>Y G q L acc. L \<le> 0 \<longrightarrow> Y \<le> H \<longrightarrow> rebuild_while Y G q L H 1 acc = None)"
proof
  show "add_rebuilds ages H seeds tgts \<noteq> None"
    unfolding add_rebuilds_def using assms by (rule rebuild_for_terminates)
  show "\<forall>Y G q L acc. L \<le> 0 \<longrightarrow> Y \<le> H \<longrightarrow> rebuild_while Y G q L H 1 acc = None"
  proof (intro allI impI)
    fix Y G q L acc
    assume "L \<le> (0::int)" "Y \<le> H"
    then have "L \<le> 0 \<and> Y + 1 * L \<le> H" by simp
    then show "rebuild_while Y G q L H 1 acc = None"
      using rebuild_while_Some_cond[of Y G q L H 1 acc] by (cases "rebuild_while Y G q L H 1 acc") auto
  qed
qed

theorem rebuild_terminates_witness:
  "add_rebuilds [''DistPV'' \<mapsto> 25] 2045 [] [(2020, ''DistPV'', MW 162.3)] \<noteq> None
   \<and> rebuild_while 2020 ''DistPV'' (MW 162.3) 0 2045 1 [] = None"
  using rebuild_terminates[of "[]" "[(2020, ''DistPV'', MW 162.3)]" "[''DistPV'' \<mapsto> 25]" 2045]
  by simp

text \<open>
  Claim C6. When every group of a rebuildable target has a positive service life, the
  reconstruction appends to the targets the successors of every rebuildable target, in
  order, and nothing else. The successors of a target of the year \<open>Y\<close> and a group of
  life \<open>L\<close> are the events of the years \<open>Y + L, Y + 2 * L, \<dots>, Y + n * L\<close> with the group
  and the quantity of the target, where \<open>Y + k * L\<close> is at most the last period \<open>H\<close>
  exactly for the \<open>k\<close> up to \<open>n\<close>.
\<close>

theorem rebuild_successors:
  assumes "\<forall>(y, t, q) \<in> set (seeds @ tgts). \<exists>L. ages t = Some L \<and> 0 < L"
  shows "(\<exists>tlife. add_rebuilds ages H seeds tgts =
            Some (Inr (tlife, tgts @ concat (map (successors ages H) (seeds @ tgts)))))
       \<and> (\<forall>(Y, G, q) \<in> set (seeds @ tgts). \<forall>L. ages G = Some L \<longrightarrow>
            (\<exists>n. successors ages H (Y, G, q) = map (\<lambda>k. (Y + k * L, G, q)) [1 .. n]
                 \<and> (\<forall>k\<ge>1. (k \<le> n) = (Y + k * L \<le> H))))"
proof
  show "\<exists>tlife. add_rebuilds ages H seeds tgts =
            Some (Inr (tlife, tgts @ concat (map (successors ages H) (seeds @ tgts))))"
    unfolding add_rebuilds_def using rebuild_for_pos[OF assms] by blast
  show "\<forall>(Y, G, q) \<in> set (seeds @ tgts). \<forall>L. ages G = Some L \<longrightarrow>
            (\<exists>n. successors ages H (Y, G, q) = map (\<lambda>k. (Y + k * L, G, q)) [1 .. n]
                 \<and> (\<forall>k\<ge>1. (k \<le> n) = (Y + k * L \<le> H)))"
  proof (intro ballI, clarify)
    fix Y G q L
    assume ev: "(Y, G, q) \<in> set (seeds @ tgts)" and L: "ages G = Some L"
    with assms have pos: "0 < L" by fastforce
    have "successors ages H (Y, G, q) = map (\<lambda>k. (Y + k * L, G, q)) [1 .. (H - Y) div L]"
      using L by (simp add: successors_def)
    moreover have "\<forall>k\<ge>1. (k \<le> (H - Y) div L) = (Y + k * L \<le> H)"
      using pos by (simp add: le_div_pos)
    ultimately show "\<exists>n. successors ages H (Y, G, q) = map (\<lambda>k. (Y + k * L, G, q)) [1 .. n]
                 \<and> (\<forall>k\<ge>1. (k \<le> n) = (Y + k * L \<le> H))"
      by blast
  qed
qed

theorem rebuild_successors_witness:
  "\<exists>tlife. add_rebuilds [''DistPV'' \<mapsto> 25, ''OnshoreWind'' \<mapsto> 20] 2045
                 [(1998, ''OnshoreWind'', MW 30)] [(2020, ''DistPV'', MW 162.3)] =
         Some (Inr (tlife, [(2020, ''DistPV'', MW 162.3),
                            (2018, ''OnshoreWind'', MW 30), (2038, ''OnshoreWind'', MW 30),
                            (2045, ''DistPV'', MW 162.3)]))"
  using rebuild_successors[of "[(1998, ''OnshoreWind'', MW 30)]" "[(2020, ''DistPV'', MW 162.3)]"
          "[''DistPV'' \<mapsto> 25, ''OnshoreWind'' \<mapsto> 20]" 2045, THEN conjunct1]
  by (simp add: successors_def upto.simps)

end
